theory Spec2Isabelle
  imports Main "HOL-Library.AList"
begin

section \<open>Local dataset transformations (bigml/dataset.py)\<close>

text \<open>
  The module rebuilds, from the descriptive payload of a dataset, the generators that
  derived it from its origin dataset, and applies them locally to input records.
  Python exceptions are values of the type \<open>error\<close>; a function that can raise
  returns \<open>error + 'a\<close>, \<open>Inl\<close> being the exception.
\<close>

datatype error = AttributeError | IndexError | KeyError | TypeError | ValueError string

subsection \<open>Data\<close>

text \<open>
  A field descriptor is a dictionary; this module reads its \<open>"name"\<close> entry only and
  hands the descriptor to \<open>cast\<close>. A \<open>Fields\<close> object (bigml.fields, a collaborator)
  is seen through the four attributes the module uses; its attribute \<open>fields\<close> is
  written \<open>fields'\<close>.
\<close>

type_synonym descriptor = "string \<rightharpoonup> string"

record Fields =
  fields' :: "string \<rightharpoonup> descriptor"
  fields_by_name :: "string \<rightharpoonup> string"
  fields_by_column_number :: "int \<rightharpoonup> string"
  fields_columns :: "int list"

text \<open>
  Python dictionaries keep insertion order, so an input record, the resolved record and an
  output record are association lists; \<open>AList.update\<close> is \<open>d.update({k: v})\<close>
  (the value of a known key is replaced in place, a new key is appended) and \<open>map_of\<close>
  is the lookup. A value is \<open>'v option\<close>, \<open>None\<close> being Python's \<open>None\<close>.
\<close>

type_synonym 'v pydict = "(string \<times> 'v option) list"
type_synonym 'v row = "'v option list"

text \<open>
  An entry of the payload's \<open>"output_fields"\<close>, and the dictionary
  \<open>{"field": sexp, "names": names}\<close> that \<open>get_new_fields\<close> builds from it. Both keys of
  the latter are always present, with Python's \<open>None\<close> where the entry had none, so
  the default of \<open>transformation.get("names", [])\<close> is never taken.
\<close>

record 'e output_field =
  generator :: "'e option"
  of_names :: "string list option"

record 'e transformation =
  field :: "'e option"
  names :: "string list option"

text \<open>
  The dictionary of a dataset: the keys \<open>__init__\<close> reads. \<open>p_fields\<close> is the
  \<open>"fields"\<close> entry when it is a dictionary, \<open>None\<close> otherwise; for the other keys
  \<open>None\<close> is an absent key. \<open>p_status\<close> is the \<open>"code"\<close> entry of the status, which
  the collaborator \<open>get_status\<close> extracts. A payload may wrap that dictionary under
  \<open>"object"\<close>.
\<close>

record 'e body =
  p_fields :: "(string \<rightharpoonup> descriptor) option"
  p_status :: "int option"
  p_description :: "string option"
  p_locale :: "string option"
  p_rows :: "int option"
  p_output_fields :: "'e output_field list option"
  p_origin_dataset :: "string option"

record 'e payload =
  p_object :: "'e body option"
  p_self :: "'e body"

text \<open>The attributes of a \<open>Dataset\<close> object; \<open>None\<close> is Python's \<open>None\<close>, and for
  the three header attributes, which \<open>__init__\<close> does not initialise, an unset attribute.\<close>

datatype 'e Dataset = Dataset
  (resource_id: "string option")
  (rows: "int option")
  (origin_dataset: "'e Dataset option")
  (in_fields: "Fields option")
  (out_fields: "Fields option")
  (description: "string option")
  (locale': "string option")
  (transformations: "'e transformation list option")
  (out_header_names: "string list option")
  (in_header_names: "string list option")
  (in_header_ids: "string list option")

text \<open>
  The names the module imports and the API connection, as parameters: the resource of type
  \<open>'r\<close> is what the constructor is given (an identifier or a payload), \<open>'e\<close> is a
  Flatline expression, \<open>'v\<close> a cell value and \<open>'s\<close> a sample resource.
  \<open>get_status\<close> is reduced to the \<open>"code"\<close> entry of the status (\<open>None\<close> when the
  status has no code), \<open>evaluate_sexp\<close> to the \<open>"error"\<close> entry of the check, and
  \<open>get_sample_rows\<close> to the rows of the retrieved sample.
\<close>

record ('r, 'e, 'v, 's) env =
  FINISHED :: int
  DEFAULT_LOCALE :: string
  get_resource_dict :: "'r \<Rightarrow> error + (string \<times> 'e payload)"
  get_status :: "'e body \<Rightarrow> error + int option"
  Fields_of :: "'e body \<Rightarrow> error + Fields"
  cast_rule :: "descriptor \<Rightarrow> 'v option \<Rightarrow> error + 'v option"
  evaluate_sexp :: "'e option \<Rightarrow> (string \<rightharpoonup> descriptor) \<Rightarrow> error + string option"
  eval_and_apply_sexp ::
    "'e option \<Rightarrow> (string \<rightharpoonup> descriptor) \<Rightarrow> 'v row list \<Rightarrow> error + 'v row list"
  get_dataset :: "string \<Rightarrow> error + 'r"
  create_sample :: "string option \<Rightarrow> error + 's"
  ok :: "'s \<Rightarrow> bool"
  get_sample_rows :: "'s \<Rightarrow> int \<Rightarrow> error + 'v row list option"

subsection \<open>sorted_headers and get_new_fields\<close>

fun sorted_headers_loop ::
  "Fields \<Rightarrow> int list \<Rightarrow> string list \<times> string list \<Rightarrow> error + (string list \<times> string list)"
where
  "sorted_headers_loop f [] acc = Inr acc"
| "sorted_headers_loop f (column # columns) (header_names, header_ids) =
     (case fields_by_column_number f column of
        None \<Rightarrow> Inl KeyError
      | Some fid \<Rightarrow>
          (case fields' f fid of
             None \<Rightarrow> Inl KeyError
           | Some dsc \<Rightarrow>
               (case dsc ''name'' of
                  None \<Rightarrow> Inl KeyError
                | Some nm \<Rightarrow>
                    sorted_headers_loop f columns (header_names @ [nm], header_ids @ [fid]))))"

definition sorted_headers :: "Fields \<Rightarrow> error + (string list \<times> string list)" where
  "sorted_headers f = sorted_headers_loop f (fields_columns f) ([], [])"

definition get_new_fields :: "'e output_field list \<Rightarrow> 'e transformation list" where
  "get_new_fields output_fields =
     map (\<lambda>output_field. \<lparr>field = generator output_field, names = of_names output_field\<rparr>)
       output_fields"

subsection \<open>The row builder\<close>

text \<open>
  Modelled from the spec: \<open>cast\<close> of bigml.util is not among the sources. The spec has it
  normalise the resolved record in place, applying to every value the casting rule that
  its field's descriptor declares, a casting failure being an error, while a key that no
  field answers to is carried through and never raises. The rule itself is the parameter
  \<open>cast_rule\<close>.
\<close>

fun cast ::
  "(descriptor \<Rightarrow> 'v option \<Rightarrow> error + 'v option) \<Rightarrow> (string \<rightharpoonup> descriptor) \<Rightarrow>
   'v pydict \<Rightarrow> error + 'v pydict"
where
  "cast rule flds [] = Inr []"
| "cast rule flds ((key, v) # input_data) =
     (case flds key of
        None \<Rightarrow>
          (case cast rule flds input_data of
             Inl e \<Rightarrow> Inl e
           | Inr rest \<Rightarrow> Inr ((key, v) # rest))
      | Some dsc \<Rightarrow>
          (case rule dsc v of
             Inl e \<Rightarrow> Inl e
           | Inr v' \<Rightarrow>
               (case cast rule flds input_data of
                  Inl e \<Rightarrow> Inl e
                | Inr rest \<Rightarrow> Inr ((key, v') # rest))))"

text \<open>The first loop of \<open>_input_array\<close>: every key is kept when it is a field id and
  replaced by \<open>fields_by_name.get(key, key)\<close> otherwise.\<close>

fun input_loop :: "'e Dataset \<Rightarrow> 'v pydict \<Rightarrow> 'v pydict \<Rightarrow> error + 'v pydict" where
  "input_loop self [] new_input_data = Inr new_input_data"
| "input_loop self ((key, v) # items) new_input_data =
     (case in_header_ids self of
        None \<Rightarrow> Inl AttributeError
      | Some _ \<Rightarrow>
          (case in_fields self of
             None \<Rightarrow> Inl AttributeError
           | Some f \<Rightarrow>
               (case fields' f key of
                  Some _ \<Rightarrow> input_loop self items (AList.update key v new_input_data)
                | None \<Rightarrow>
                    (let key' = (case fields_by_name f key of None \<Rightarrow> key | Some k \<Rightarrow> k)
                     in case in_header_names self of
                          None \<Rightarrow> Inl AttributeError
                        | Some _ \<Rightarrow>
                            input_loop self items (AList.update key' v new_input_data)))))"

text \<open>\<open>_input_array\<close>.\<close>

definition priv_input_array ::
  "('r, 'e, 'v, 's) env \<Rightarrow> 'e Dataset \<Rightarrow> 'v pydict \<Rightarrow> error + 'v row"
where
  "priv_input_array env self input_data =
     (case input_loop self input_data [] of
        Inl e \<Rightarrow> Inl e
      | Inr new_input_data \<Rightarrow>
          (case in_fields self of
             None \<Rightarrow> Inl AttributeError
           | Some f \<Rightarrow>
               (case cast (cast_rule env) (fields' f) new_input_data of
                  Inl e \<Rightarrow> Inl e
                | Inr casted \<Rightarrow>
                    (case in_header_ids self of
                       None \<Rightarrow> Inl AttributeError
                     | Some ids \<Rightarrow>
                         Inr (map (\<lambda>name. case map_of casted name of
                                             None \<Rightarrow> None
                                           | Some v \<Rightarrow> v) ids)))))"

subsection \<open>The transformation engine\<close>

text \<open>
  The loop over \<open>enumerate(new_input)\<close>; the enumerated element is \<open>new_input[index]\<close>.
  The headers are extended inside this loop, once for every result row.
\<close>

fun rows_loop ::
  "string list option \<Rightarrow> (nat \<times> 'v row) list \<Rightarrow> 'v row list \<times> string list \<Rightarrow>
   error + ('v row list \<times> string list)"
where
  "rows_loop nms [] st = Inr st"
| "rows_loop nms ((index, new_row) # rest) (new_input_arrays, out_headers) =
     (let arrays = (if index < length new_input_arrays then new_input_arrays
                    else new_input_arrays @ [[]])
      in if index < length arrays
         then (case nms of
                 None \<Rightarrow> Inl TypeError
               | Some ns \<Rightarrow>
                   rows_loop nms rest
                     (arrays[index := arrays ! index @ new_row], out_headers @ ns))
         else Inl IndexError)"

fun transformations_loop ::
  "('r, 'e, 'v, 's) env \<Rightarrow> (string \<rightharpoonup> descriptor) \<Rightarrow> 'v row list \<Rightarrow>
   'e transformation list \<Rightarrow> 'v row list \<times> string list \<Rightarrow>
   error + ('v row list \<times> string list)"
where
  "transformations_loop env flds input_arrays [] st = Inr st"
| "transformations_loop env flds input_arrays (transformation # ts) st =
     (case evaluate_sexp env (field transformation) flds of
        Inl e \<Rightarrow> Inl e
      | Inr check \<Rightarrow>
          (case check of
             Some msg \<Rightarrow> Inl (ValueError msg)
           | None \<Rightarrow>
               (case eval_and_apply_sexp env (field transformation) flds input_arrays of
                  Inl e \<Rightarrow> Inl e
                | Inr new_input \<Rightarrow>
                    (case rows_loop (names transformation) (enumerate 0 new_input) st of
                       Inl e \<Rightarrow> Inl e
                     | Inr st' \<Rightarrow> transformations_loop env flds input_arrays ts st'))))"

text \<open>The last loop of \<open>_transform\<close>, which copies the accumulated rows.\<close>

fun out_loop :: "(nat \<times> 'v row) list \<Rightarrow> 'v row list \<Rightarrow> error + 'v row list" where
  "out_loop [] out_arrays = Inr out_arrays"
| "out_loop ((index, input_array) # rest) out_arrays =
     (let arrays = (if index < length out_arrays then out_arrays else out_arrays @ [[]])
      in if index < length arrays
         then out_loop rest (arrays[index := arrays ! index @ input_array])
         else Inl IndexError)"

text \<open>\<open>_transform\<close>: iterating \<open>self.transformations\<close> when it is \<open>None\<close> is a
  \<open>TypeError\<close>.\<close>

definition priv_transform ::
  "('r, 'e, 'v, 's) env \<Rightarrow> 'e Dataset \<Rightarrow> 'v row list \<Rightarrow> error + (string list \<times> 'v row list)"
where
  "priv_transform env self input_arrays =
     (case in_fields self of
        None \<Rightarrow> Inl AttributeError
      | Some f \<Rightarrow>
          (case transformations self of
             None \<Rightarrow> Inl TypeError
           | Some ts \<Rightarrow>
               (case transformations_loop env (fields' f) input_arrays ts ([], []) of
                  Inl e \<Rightarrow> Inl e
                | Inr (new_input_arrays, out_headers) \<Rightarrow>
                    (case out_loop (enumerate 0 new_input_arrays) [] of
                       Inl e \<Rightarrow> Inl e
                     | Inr out_arrays \<Rightarrow> Inr (out_headers, out_arrays)))))"

subsection \<open>The output assembler and transform\<close>

text \<open>\<open>dict(pairs)\<close>: the pairs are stored from left to right.\<close>

definition dict :: "(string \<times> 'w) list \<Rightarrow> (string \<times> 'w) list" where
  "dict pairs = foldl (\<lambda>d (k, v). AList.update k v d) [] pairs"

text \<open>A list comprehension whose element may raise stops at the first exception.\<close>

fun comprehension :: "('a \<Rightarrow> error + 'b) \<Rightarrow> 'a list \<Rightarrow> error + 'b list" where
  "comprehension g [] = Inr []"
| "comprehension g (x # xs) =
     (case g x of
        Inl e \<Rightarrow> Inl e
      | Inr y \<Rightarrow> (case comprehension g xs of Inl e \<Rightarrow> Inl e | Inr ys \<Rightarrow> Inr (y # ys)))"

definition transform ::
  "('r, 'e, 'v, 's) env \<Rightarrow> 'e Dataset \<Rightarrow> 'v pydict list \<Rightarrow> error + 'v pydict list"
where
  "transform env self input_data_list =
     (case comprehension (priv_input_array env self) input_data_list of
        Inl e \<Rightarrow> Inl e
      | Inr rws \<Rightarrow>
          (case priv_transform env self rws of
             Inl e \<Rightarrow> Inl e
           | Inr (out_headers, out_arrays) \<Rightarrow>
               Inr (map (\<lambda>row. dict (zip out_headers row)) out_arrays)))"

subsection \<open>Samples\<close>

definition get_sample ::
  "('r, 'e, 'v, 's) env \<Rightarrow> 'e Dataset \<Rightarrow> int \<Rightarrow> error + 'v row list option"
where
  "get_sample env self rows_number =
     (case create_sample env (resource_id self) of
        Inl e \<Rightarrow> Inl e
      | Inr sample \<Rightarrow>
          if ok env sample then get_sample_rows env sample rows_number else Inr (Some []))"

definition get_inputs_sample ::
  "('r, 'e, 'v, 's) env \<Rightarrow> 'e Dataset \<Rightarrow> int \<Rightarrow> error + 'v row list option"
where
  "get_inputs_sample env self rows_number =
     (case origin_dataset self of
        None \<Rightarrow>
          Inl (ValueError
            ''Only datasets that are generated from other datasets can use this method.'')
      | Some origin \<Rightarrow> get_sample env origin rows_number)"

subsection \<open>Construction\<close>

text \<open>
  \<open>add_transformations\<close> fetches the origin dataset and builds its node with the
  constructor, here the parameter \<open>construct\<close>; \<open>None\<close> is a construction that
  does not return.
\<close>

fun add_transformations ::
  "('r \<Rightarrow> (error + 'e Dataset) option) \<Rightarrow> ('r, 'e, 'v, 's) env \<Rightarrow> 'e Dataset \<Rightarrow> string \<Rightarrow>
   'e transformation list \<Rightarrow> (error + 'e Dataset) option"
where
  "add_transformations construct env (Dataset rid rws org infl outfl dsc loc trs ohn ihn ihi)
     origin new_fields =
     (case get_dataset env origin of
        Inl e \<Rightarrow> Some (Inl e)
      | Inr origin_resource \<Rightarrow>
          (case construct origin_resource of
             None \<Rightarrow> None
           | Some (Inl e) \<Rightarrow> Some (Inl e)
           | Some (Inr node) \<Rightarrow>
               Some (Inr (Dataset rid rws (Some node) (out_fields node) outfl dsc loc
                            (if new_fields \<noteq> [] then Some new_fields else trs)
                            ohn ihn ihi))))"

fun set_in_headers :: "'e Dataset \<Rightarrow> string list \<Rightarrow> string list \<Rightarrow> 'e Dataset" where
  "set_in_headers (Dataset rid rws org infl outfl dsc loc trs ohn ihn ihi) header_names header_ids =
     Dataset rid rws org infl outfl dsc loc trs ohn (Some header_names) (Some header_ids)"

text \<open>The dictionary \<open>__init__\<close> works on: the \<open>"object"\<close> entry of the payload when
  there is one, the payload itself otherwise.\<close>

definition payload_body :: "'e payload \<Rightarrow> 'e body" where
  "payload_body payload = (case p_object payload of Some b \<Rightarrow> b | None \<Rightarrow> p_self payload)"

text \<open>
  The body of \<open>__init__\<close> for the default \<open>cache_get=None\<close>; the cached branch hands
  the whole object to a loader outside this module and is not modelled.
\<close>

definition init_body ::
  "('r \<Rightarrow> (error + 'e Dataset) option) \<Rightarrow> ('r, 'e, 'v, 's) env \<Rightarrow> 'r \<Rightarrow>
   (error + 'e Dataset) option"
where
  "init_body construct env resource =
     (case get_resource_dict env resource of
        Inl e \<Rightarrow> Some (Inl e)
      | Inr (rid, payload) \<Rightarrow>
          (let dataset = payload_body payload;
               self0 = Dataset (Some rid) None None None None None None None None None None
           in case p_fields dataset of
                None \<Rightarrow> Some (Inr self0)
              | Some _ \<Rightarrow>
                  (case get_status env dataset of
                     Inl e \<Rightarrow> Some (Inl e)
                   | Inr code \<Rightarrow>
                       if code = Some (FINISHED env)
                       then
                         (case Fields_of env dataset of
                            Inl e \<Rightarrow> Some (Inl e)
                          | Inr outfl \<Rightarrow>
                              (case sorted_headers outfl of
                                 Inl e \<Rightarrow> Some (Inl e)
                               | Inr (out_names, _) \<Rightarrow>
                                   (case p_description dataset of
                                      None \<Rightarrow> Some (Inl KeyError)
                                    | Some desc \<Rightarrow>
                                        (let self1 =
                                               Dataset (Some rid)
                                                 (Some (case p_rows dataset of
                                                          None \<Rightarrow> 0 | Some n \<Rightarrow> n))
                                                 None None (Some outfl) (Some desc)
                                                 (Some (case p_locale dataset of
                                                          None \<Rightarrow> DEFAULT_LOCALE env
                                                        | Some l \<Rightarrow> l))
                                                 None (Some out_names) None None;
                                             new_fields =
                                               get_new_fields
                                                 (case p_output_fields dataset of
                                                    None \<Rightarrow> [] | Some l \<Rightarrow> l)
                                         in case p_origin_dataset dataset of
                                              None \<Rightarrow> Some (Inr self1)
                                            | Some origin \<Rightarrow>
                                                if origin = [] then Some (Inr self1)
                                                else
                                                  (case add_transformations construct env
                                                          self1 origin new_fields of
                                                     None \<Rightarrow> None
                                                   | Some (Inl e) \<Rightarrow> Some (Inl e)
                                                   | Some (Inr self2) \<Rightarrow>
                                                       (case in_fields self2 of
                                                          None \<Rightarrow> Some (Inl AttributeError)
                                                        | Some infl \<Rightarrow>
                                                            (case sorted_headers infl of
                                                               Inl e \<Rightarrow> Some (Inl e)
                                                             | Inr (nms, ids) \<Rightarrow>
                                                                 Some (Inr (set_in_headers
                                                                   self2 nms ids)))))))))
                       else Some (Inr self0))))"

text \<open>
  \<open>__init__\<close>: the constructor calls itself for the origin dataset, once for every link
  of the origin chain, and nothing bounds the chain. The number of nested constructions
  allowed is \<open>fuel\<close>; the result is \<open>None\<close> when the chain is longer.
\<close>

primrec Dataset_init ::
  "('r, 'e, 'v, 's) env \<Rightarrow> nat \<Rightarrow> 'r \<Rightarrow> (error + 'e Dataset) option"
where
  "Dataset_init env 0 = init_body (\<lambda>_. None) env"
| "Dataset_init env (Suc fuel) = init_body (Dataset_init env fuel) env"

subsection \<open>Notions used in the statements\<close>

text \<open>The key under which the first loop of \<open>_input_array\<close> stores the value of
  \<open>key\<close>: the key itself when it is a field id, the id of the field of that name when
  there is one, the key itself otherwise.\<close>

definition resolve_key :: "Fields \<Rightarrow> string \<Rightarrow> string" where
  "resolve_key f key =
     (case fields' f key of
        Some _ \<Rightarrow> key
      | None \<Rightarrow> (case fields_by_name f key of None \<Rightarrow> key | Some k \<Rightarrow> k))"


text \<open>An entry whose key is a field id.\<close>

definition answers :: "(string \<rightharpoonup> descriptor) \<Rightarrow> string \<times> 'a \<Rightarrow> bool" where
  "answers flds p = (flds (fst p) \<noteq> None)"

subsection \<open>A concrete dataset\<close>

text \<open>
  The scenario of the specification: a schema with the numeric fields \<open>a\<close> and \<open>b\<close> in
  columns 0 and 1, and datasets derived from it. The collaborators are stand-ins: the
  interpreter knows the sum and the difference of the two fields and reports any other
  expression as an error, and the casting rule refuses text in a numeric field. The status
  code 5 is the finished one. The dataset \<open>dataset/twins\<close> gives the same name to its
  two output fields, \<open>dataset/copy\<close> declares no output field.
\<close>

datatype cell = Num int | Str string

definition demo_descriptor :: "string \<Rightarrow> descriptor" where
  "demo_descriptor nm = map_of [(''name'', nm), (''optype'', ''numeric'')]"

definition demo_fields :: Fields where
  "demo_fields =
     \<lparr>fields' = map_of [(''000000'', demo_descriptor ''a''), (''000001'', demo_descriptor ''b'')],
      fields_by_name = map_of [(''a'', ''000000''), (''b'', ''000001'')],
      fields_by_column_number = map_of [(0, ''000000''), (1, ''000001'')],
      fields_columns = [0, 1]\<rparr>"

definition demo_cast_rule :: "descriptor \<Rightarrow> cell option \<Rightarrow> error + cell option" where
  "demo_cast_rule dsc v =
     (case v of
        Some (Str s) \<Rightarrow>
          if dsc ''optype'' = Some ''numeric''
          then Inl (ValueError ''Mismatch input data type'') else Inr v
      | _ \<Rightarrow> Inr v)"

fun demo_apply :: "string option \<Rightarrow> cell row \<Rightarrow> cell option" where
  "demo_apply e [Some (Num x), Some (Num y)] =
     (if e = Some ''(+ (field a) (field b))'' then Some (Num (x + y))
      else if e = Some ''(- (field a) (field b))'' then Some (Num (x - y))
      else None)"
| "demo_apply e r = None"

definition demo_plus :: "string output_field" where
  "demo_plus = \<lparr>generator = Some ''(+ (field a) (field b))'', of_names = Some [''sum'']\<rparr>"

definition demo_minus :: "string output_field" where
  "demo_minus = \<lparr>generator = Some ''(- (field a) (field b))'', of_names = Some [''diff'']\<rparr>"

definition demo_twin_plus :: "string output_field" where
  "demo_twin_plus = \<lparr>generator = Some ''(+ (field a) (field b))'', of_names = Some [''x'']\<rparr>"

definition demo_twin_minus :: "string output_field" where
  "demo_twin_minus = \<lparr>generator = Some ''(- (field a) (field b))'', of_names = Some [''x'']\<rparr>"

definition demo_broken :: "string output_field" where
  "demo_broken = \<lparr>generator = Some ''(+ (field a)'', of_names = Some [''half'']\<rparr>"

definition demo_body :: "int \<Rightarrow> string option \<Rightarrow> string output_field list \<Rightarrow> string body" where
  "demo_body code origin ofs =
     \<lparr>p_fields = Some (fields' demo_fields), p_status = Some code,
      p_description = Some ''demo'', p_locale = None, p_rows = None,
      p_output_fields = Some ofs, p_origin_dataset = origin\<rparr>"

definition demo_resources :: "(string \<times> string payload) list" where
  "demo_resources =
     [(''dataset/origin'', \<lparr>p_object = None, p_self = demo_body 5 None []\<rparr>),
      (''dataset/derived'',
         \<lparr>p_object = Some (demo_body 5 (Some ''dataset/origin'') [demo_plus, demo_minus]),
          p_self = demo_body 5 None []\<rparr>),
      (''dataset/broken'',
         \<lparr>p_object = None, p_self = demo_body 5 (Some ''dataset/origin'') [demo_broken]\<rparr>),
      (''dataset/copy'',
         \<lparr>p_object = None, p_self = demo_body 5 (Some ''dataset/origin'') []\<rparr>),
      (''dataset/pending'',
         \<lparr>p_object = None, p_self = demo_body 2 (Some ''dataset/origin'') [demo_plus]\<rparr>),
      (''dataset/twins'',
         \<lparr>p_object = None,
          p_self = demo_body 5 (Some ''dataset/origin'') [demo_twin_plus, demo_twin_minus]\<rparr>)]"

definition demo_env :: "(string, string, cell, unit) env" where
  "demo_env =
     \<lparr>FINISHED = 5, DEFAULT_LOCALE = ''en_US.UTF-8'',
      get_resource_dict = (\<lambda>r. case map_of demo_resources r of
                                  None \<Rightarrow> Inl (ValueError ''no such resource'')
                                | Some p \<Rightarrow> Inr (r, p)),
      get_status = (\<lambda>b. Inr (p_status b)),
      Fields_of = (\<lambda>b. Inr demo_fields),
      cast_rule = demo_cast_rule,
      evaluate_sexp = (\<lambda>e flds. Inr (if e = Some ''(+ (field a) (field b))''
                                         \<or> e = Some ''(- (field a) (field b))''
                                       then None else Some ''unknown expression'')),
      eval_and_apply_sexp = (\<lambda>e flds rws. Inr (map (\<lambda>r. [demo_apply e r]) rws)),
      get_dataset = (\<lambda>origin. Inr origin),
      create_sample = (\<lambda>rid. Inr ()),
      ok = (\<lambda>s. True),
      get_sample_rows = (\<lambda>s n. Inr (Some []))\<rparr>"

definition demo_origin :: "string Dataset" where
  "demo_origin =
     Dataset (Some ''dataset/origin'') (Some 0) None None (Some demo_fields) (Some ''demo'')
       (Some ''en_US.UTF-8'') None (Some [''a'', ''b'']) None None"

definition demo_node :: "string \<Rightarrow> string transformation list option \<Rightarrow> string Dataset" where
  "demo_node rid ts =
     Dataset (Some rid) (Some 0) (Some demo_origin) (Some demo_fields) (Some demo_fields)
       (Some ''demo'') (Some ''en_US.UTF-8'') ts (Some [''a'', ''b'']) (Some [''a'', ''b''])
       (Some [''000000'', ''000001''])"

definition demo_record :: "cell pydict" where
  "demo_record = [(''a'', Some (Num 2)), (''b'', Some (Num 3))]"

definition demo_derived :: "string Dataset" where
  "demo_derived =
     demo_node ''dataset/derived''
       (Some [\<lparr>field = Some ''(+ (field a) (field b))'', names = Some [''sum'']\<rparr>,
              \<lparr>field = Some ''(- (field a) (field b))'', names = Some [''diff'']\<rparr>])"

definition demo_twins :: "string Dataset" where
  "demo_twins =
     demo_node ''dataset/twins''
       (Some [\<lparr>field = Some ''(+ (field a) (field b))'', names = Some [''x'']\<rparr>,
              \<lparr>field = Some ''(- (field a) (field b))'', names = Some [''x'']\<rparr>])"

definition demo_broken_node :: "string Dataset" where
  "demo_broken_node =
     demo_node ''dataset/broken'' (Some [\<lparr>field = Some ''(+ (field a)'', names = Some [''half'']\<rparr>])"

section \<open>The output assembler\<close>

lemma map_of_foldl_update:
  "map_of (foldl (\<lambda>d (k, v). AList.update k v d) acc ps) k =
     (case map_of (rev ps) k of None \<Rightarrow> map_of acc k | Some v \<Rightarrow> Some v)"
proof (induction ps arbitrary: acc)
  case Nil
  show ?case by simp
next
  case (Cons p ps)
  obtain a b where p: "p = (a, b)" by (cases p)
  show ?case
    by (simp add: p Cons.IH update_conv' map_add_def split: option.splits)
qed

lemma map_of_dict: "map_of (dict ps) = map_of (rev ps)"
  by (rule ext) (simp add: dict_def map_of_foldl_update split: option.splits)






lemma map_of_rev_last:
  assumes "i < length ps" and "ps ! i = (k, v)"
    and "\<forall>j. i < j \<longrightarrow> j < length ps \<longrightarrow> fst (ps ! j) \<noteq> k"
  shows "map_of (rev ps) k = Some v"
proof -
  have split: "ps = take i ps @ (k, v) # drop (Suc i) ps"
    using assms(1,2) by (metis id_take_nth_drop)
  have "k \<notin> fst ` set (drop (Suc i) ps)"
  proof
    assume "k \<in> fst ` set (drop (Suc i) ps)"
    then obtain p where "p \<in> set (drop (Suc i) ps)" and "fst p = k" by auto
    then obtain m where "m < length (drop (Suc i) ps)" and "drop (Suc i) ps ! m = p"
      by (auto simp: in_set_conv_nth)
    then have "Suc i + m < length ps" and "ps ! (Suc i + m) = p" by auto
    with assms(3) \<open>fst p = k\<close> show False
      by (metis less_add_Suc1 add_Suc)
  qed
  then have none: "map_of (rev (drop (Suc i) ps)) k = None"
    by (simp add: map_of_eq_None_iff)
  have "rev ps = rev (drop (Suc i) ps) @ (k, v) # rev (take i ps)"
    by (subst split) simp
  then show ?thesis by (simp add: map_add_def none)
qed

text \<open>The entry of a name is the value paired with its last occurrence.\<close>

lemma dict_zip_last_occurrence:
  assumes "i < length headers" and "i < length row" and "headers ! i = n"
    and "\<forall>j. i < j \<longrightarrow> j < length headers \<longrightarrow> j < length row \<longrightarrow> headers ! j \<noteq> n"
  shows "map_of (dict (zip headers row)) n = Some (row ! i)"
proof -
  have "map_of (rev (zip headers row)) n = Some (row ! i)"
    using assms by (intro map_of_rev_last [where i = i]) auto
  then show ?thesis by (simp add: map_of_dict)
qed



section \<open>Samples\<close>

text \<open>
  Claim C5. For every \<open>rows_number\<close>, \<open>get_inputs_sample\<close> on a node whose origin is
  \<open>None\<close> raises the usage error and returns no data.
\<close>

theorem get_inputs_sample_root:
  assumes "origin_dataset self = None"
  shows "get_inputs_sample env self rows_number =
           Inl (ValueError
             ''Only datasets that are generated from other datasets can use this method.'')"
  using assms by (simp add: get_inputs_sample_def)

theorem get_inputs_sample_root_witness:
  "origin_dataset demo_origin = None \<and>
   get_inputs_sample demo_env demo_origin 32 =
     Inl (ValueError
       ''Only datasets that are generated from other datasets can use this method.'')"
  using get_inputs_sample_root [of demo_origin demo_env 32]
  by (simp add: demo_origin_def)

section \<open>The row builder\<close>

lemma input_loop_resolved:
  assumes "in_fields self = Some f" and "in_header_names self = Some nms"
    and "in_header_ids self = Some ids"
  shows "input_loop self items acc =
           Inr (foldl (\<lambda>d (k, v). AList.update k v d) acc
                  (map (\<lambda>(key, v). (resolve_key f key, v)) items))"
proof (induction items arbitrary: acc)
  case Nil
  show ?case by simp
next
  case (Cons p items)
  obtain key v where p: "p = (key, v)" by (cases p)
  show ?case
    by (simp add: p assms Cons.IH resolve_key_def split: option.splits)
qed





lemma sorted_headers_loop_ids:
  "sorted_headers_loop f cols (ns0, ids0) = Inr (ns, ids) \<Longrightarrow>
   length ids = length ids0 + length cols \<and>
   (\<forall>i<length cols. fields_by_column_number f (cols ! i) = Some (ids ! (length ids0 + i)) \<and>
      fields' f (ids ! (length ids0 + i)) \<noteq> None) \<and>
   take (length ids0) ids = ids0"
proof (induction cols arbitrary: ns0 ids0)
  case Nil
  then show ?case by simp
next
  case (Cons col cols)
  from Cons.prems obtain fid dsc nm where
    fid: "fields_by_column_number f col = Some fid" and dsc: "fields' f fid = Some dsc"
    and nm: "dsc ''name'' = Some nm"
    and rest: "sorted_headers_loop f cols (ns0 @ [nm], ids0 @ [fid]) = Inr (ns, ids)"
    by (auto split: option.splits)
  from Cons.IH [OF rest] have len: "length ids = Suc (length ids0) + length cols"
    and all: "\<forall>i<length cols.
        fields_by_column_number f (cols ! i) = Some (ids ! (Suc (length ids0) + i)) \<and>
        fields' f (ids ! (Suc (length ids0) + i)) \<noteq> None"
    and tk: "take (Suc (length ids0)) ids = ids0 @ [fid]"
    by simp_all
  from tk have tk0: "take (length ids0) ids = ids0"
    by (metis append_eq_conv_conj length_append_singleton lessI take_all_iff take_take min.absorb1 less_imp_le le_refl)
  from tk len have at: "ids ! length ids0 = fid"
    by (metis lessI nth_take nth_append_length)
  have "\<forall>i<length (col # cols).
        fields_by_column_number f ((col # cols) ! i) = Some (ids ! (length ids0 + i)) \<and>
        fields' f (ids ! (length ids0 + i)) \<noteq> None"
  proof (intro allI impI)
    fix i assume "i < length (col # cols)"
    then show "fields_by_column_number f ((col # cols) ! i) = Some (ids ! (length ids0 + i)) \<and>
        fields' f (ids ! (length ids0 + i)) \<noteq> None"
      using all fid dsc at by (cases i) auto
  qed
  with len tk0 show ?case by simp
qed

lemma sorted_headers_ids:
  assumes "sorted_headers f = Inr (nms, ids)"
  shows "length ids = length (fields_columns f)"
    and "\<And>i. i < length ids \<Longrightarrow>
           fields_by_column_number f (fields_columns f ! i) = Some (ids ! i) \<and>
           fields' f (ids ! i) \<noteq> None"
  using sorted_headers_loop_ids [of f "fields_columns f" "[]" "[]" nms ids] assms
  by (simp_all add: sorted_headers_def)

lemma priv_input_array_resolved:
  assumes "in_fields self = Some f" and "in_header_names self = Some nms"
    and "in_header_ids self = Some ids"
  shows "priv_input_array env self input_data =
           (case cast (cast_rule env) (fields' f)
                   (dict (map (\<lambda>(key, v). (resolve_key f key, v)) input_data)) of
              Inl e \<Rightarrow> Inl e
            | Inr casted \<Rightarrow>
                Inr (map (\<lambda>name. case map_of casted name of None \<Rightarrow> None | Some v \<Rightarrow> v) ids))"
  by (simp add: priv_input_array_def input_loop_resolved [OF assms] assms dict_def
        split: sum.splits)



text \<open>The concrete dataset, evaluated.\<close>

lemma demo_sorted_headers:
  "sorted_headers demo_fields = Inr ([''a'', ''b''], [''000000'', ''000001''])"
  by (simp add: sorted_headers_def demo_fields_def demo_descriptor_def)

lemma demo_env_simps:
  "cast_rule demo_env = demo_cast_rule"
  "evaluate_sexp demo_env = (\<lambda>e flds. Inr (if e = Some ''(+ (field a) (field b))''
                                         \<or> e = Some ''(- (field a) (field b))''
                                       then None else Some ''unknown expression''))"
  "eval_and_apply_sexp demo_env = (\<lambda>e flds rws. Inr (map (\<lambda>r. [demo_apply e r]) rws))"
  by (simp_all add: demo_env_def)

lemma demo_fields_simps:
  "fields' demo_fields = map_of [(''000000'', demo_descriptor ''a''), (''000001'', demo_descriptor ''b'')]"
  "fields_by_name demo_fields = map_of [(''a'', ''000000''), (''b'', ''000001'')]"
  "fields_columns demo_fields = [0, 1]"
  by (simp_all add: demo_fields_def)

lemma demo_row:
  "priv_input_array demo_env (demo_node rid ts) demo_record = Inr [Some (Num 2), Some (Num 3)]"
  by (simp add: priv_input_array_def demo_node_def demo_record_def demo_env_simps
      demo_fields_simps demo_cast_rule_def)

lemma demo_row_rejected:
  "priv_input_array demo_env (demo_node rid ts) [(''a'', Some (Str ''two''))] =
     Inl (ValueError ''Mismatch input data type'')"
  by (simp add: priv_input_array_def demo_node_def demo_env_simps
      demo_fields_simps demo_cast_rule_def demo_descriptor_def)



lemma answers_pair: "answers flds (k, v) = (flds k \<noteq> None)"
  by (simp add: answers_def)

lemma filter_update:
  "filter (answers flds) (AList.update k v d) =
     (if flds k \<noteq> None then AList.update k v (filter (answers flds) d)
      else filter (answers flds) d)"
  by (induction d) (auto simp: answers_pair)

lemma filter_foldl_update:
  "filter (answers flds) (foldl (\<lambda>d (k, v). AList.update k v d) acc ps) =
     foldl (\<lambda>d (k, v). AList.update k v d) (filter (answers flds) acc)
       (filter (answers flds) ps)"
proof (induction ps arbitrary: acc)
  case Nil
  show ?case by simp
next
  case (Cons p ps)
  obtain a b where p: "p = (a, b)" by (cases p)
  show ?case by (simp add: p Cons.IH filter_update) (simp add: answers_pair)
qed

lemma cast_filter_Inl:
  "cast rule flds d = Inl e \<Longrightarrow> cast rule flds (filter (answers flds) d) = Inl e"
proof (induction d)
  case Nil
  then show ?case by simp
next
  case (Cons p d)
  obtain key v where p: "p = (key, v)" by (cases p)
  from Cons.prems show ?case
    by (auto simp: p answers_pair split: option.splits sum.splits dest: Cons.IH)
qed

lemma cast_filter_Inr:
  "cast rule flds d = Inr c \<Longrightarrow>
   cast rule flds (filter (answers flds) d) = Inr (filter (answers flds) c)"
proof (induction d arbitrary: c)
  case Nil
  then show ?case by simp
next
  case (Cons p d)
  obtain key v where p: "p = (key, v)" by (cases p)
  from Cons.prems show ?case
    by (auto simp: p answers_pair split: option.splits sum.splits dest: Cons.IH)
qed

lemma map_of_filter_answers:
  "flds k \<noteq> None \<Longrightarrow> map_of (filter (answers flds) c) k = map_of c k"
  by (induction c) (auto simp: answers_pair)

lemma row_filter:
  assumes "\<forall>fid\<in>set ids. flds fid \<noteq> None"
  shows "map (\<lambda>name. case map_of (filter (answers flds) c) name of
                        None \<Rightarrow> None | Some v \<Rightarrow> v) ids =
         map (\<lambda>name. case map_of c name of None \<Rightarrow> None | Some v \<Rightarrow> v) ids"
  using assms by (simp add: map_of_filter_answers)

lemma priv_input_array_known:
  assumes node: "in_fields self = Some f" "in_header_names self = Some nms"
      "in_header_ids self = Some ids"
    and known: "\<forall>fid\<in>set ids. fields' f fid \<noteq> None"
  shows "priv_input_array env self input_data =
           (case cast (cast_rule env) (fields' f)
                   (dict (filter (answers (fields' f))
                      (map (\<lambda>(key, v). (resolve_key f key, v)) input_data))) of
              Inl e \<Rightarrow> Inl e
            | Inr casted \<Rightarrow>
                Inr (map (\<lambda>name. case map_of casted name of None \<Rightarrow> None | Some v \<Rightarrow> v) ids))"
proof -
  let ?ps = "map (\<lambda>(key, v). (resolve_key f key, v)) input_data"
  have flt: "filter (answers (fields' f)) (dict ?ps) = dict (filter (answers (fields' f)) ?ps)"
    by (simp add: dict_def filter_foldl_update)
  show ?thesis
  proof (cases "cast (cast_rule env) (fields' f) (dict ?ps)")
    case (Inl e)
    from cast_filter_Inl [OF Inl] show ?thesis
      by (simp add: priv_input_array_resolved [OF node] Inl flt)
  next
    case (Inr c)
    from cast_filter_Inr [OF Inr] show ?thesis
      by (simp add: priv_input_array_resolved [OF node] Inr flt row_filter [OF known])
  qed
qed

text \<open>
  Claim C6. A key of the record that is neither a field id nor a field name changes nothing:
  \<open>_input_array\<close> gives, with it, the result it gives for the record without that key,
  the same row or the same exception. So the key never makes the builder raise and
  contributes nothing to the row.
\<close>

theorem unknown_key_ignored:
  assumes node: "in_fields self = Some f" "in_header_names self = Some nms"
      "in_header_ids self = Some ids"
    and headers: "sorted_headers f = Inr (nms, ids)"
    and unknown: "fields' f key = None" "fields_by_name f key = None"
  shows "priv_input_array env self input_data =
           priv_input_array env self (filter (\<lambda>(k, v). k \<noteq> key) input_data)"
proof -
  have known: "\<forall>fid\<in>set ids. fields' f fid \<noteq> None"
    using sorted_headers_ids(2) [OF headers] by (auto simp: in_set_conv_nth)
  have res: "resolve_key f key = key" using unknown by (simp add: resolve_key_def)
  have "filter (answers (fields' f))
          (map (\<lambda>(key, v). (resolve_key f key, v)) (filter (\<lambda>(k, v). k \<noteq> key) input_data)) =
        filter (answers (fields' f))
          (map (\<lambda>(key, v). (resolve_key f key, v)) input_data)"
    using res unknown(1) by (induction input_data) (auto simp: answers_pair)
  then show ?thesis
    by (simp add: priv_input_array_known [OF node known])
qed

theorem unknown_key_ignored_witness:
  "fields' demo_fields ''zz'' = None \<and> fields_by_name demo_fields ''zz'' = None \<and>
   priv_input_array demo_env demo_derived
       [(''a'', Some (Num 2)), (''zz'', Some (Str ''x'')), (''b'', Some (Num 3))] =
     Inr [Some (Num 2), Some (Num 3)]"
proof -
  have unknown: "fields' demo_fields ''zz'' = None" "fields_by_name demo_fields ''zz'' = None"
    by (simp_all add: demo_fields_simps)
  have "priv_input_array demo_env demo_derived
       [(''a'', Some (Num 2)), (''zz'', Some (Str ''x'')), (''b'', Some (Num 3))] =
     priv_input_array demo_env demo_derived demo_record"
    using unknown_key_ignored [of demo_derived demo_fields "[''a'', ''b'']"
        "[''000000'', ''000001'']" "''zz''" demo_env
        "[(''a'', Some (Num 2)), (''zz'', Some (Str ''x'')), (''b'', Some (Num 3))]",
        OF _ _ _ demo_sorted_headers unknown]
    by (simp add: demo_derived_def demo_node_def demo_record_def)
  with unknown show ?thesis by (simp add: demo_derived_def demo_row)
qed

section \<open>The transformation engine\<close>

lemma transformations_loop_append:
  "transformations_loop env flds rws (pre @ rest) st =
     (case transformations_loop env flds rws pre st of
        Inl e \<Rightarrow> Inl e
      | Inr st' \<Rightarrow> transformations_loop env flds rws rest st')"
  by (induction pre arbitrary: st) (auto split: sum.splits option.splits)

lemma transformations_loop_check_fails:
  "t \<in> set ts \<Longrightarrow> evaluate_sexp env (field t) flds = Inr (Some msg) \<Longrightarrow>
   isl (transformations_loop env flds rws ts st)"
  by (induction ts arbitrary: st) (auto split: sum.splits option.splits)

lemma priv_transform_check_fails:
  assumes "in_fields self = Some f" and "transformations self = Some ts" and "t \<in> set ts"
    and "evaluate_sexp env (field t) (fields' f) = Inr (Some msg)"
  shows "isl (priv_transform env self rws)"
  using transformations_loop_check_fails [OF assms(3,4), of rws "([], [])"] assms(1,2)
  by (auto simp: priv_transform_def split: sum.splits)

text \<open>
  Claim C3. (amended) If the dry-run check of a generator of the node reports an error,
  \<open>transform\<close> returns no output records: it raises. The exception is that generator's
  expression error when every record was built into a row and the generators before it
  were checked and applied without an exception; otherwise the earlier exception is the
  one raised.
\<close>

theorem check_error_aborts:
  assumes "in_fields self = Some f" and "transformations self = Some ts" and "t \<in> set ts"
    and "evaluate_sexp env (field t) (fields' f) = Inr (Some msg)"
  shows "isl (transform env self input_data_list) \<and>
         (comprehension (priv_input_array env self) input_data_list = Inr rws \<and>
          ts = pre @ t # post \<and>
          transformations_loop env (fields' f) rws pre ([], []) = Inr st \<longrightarrow>
          transform env self input_data_list = Inl (ValueError msg))"
proof
  show "isl (transform env self input_data_list)"
  proof (cases "comprehension (priv_input_array env self) input_data_list")
    case (Inl e)
    then show ?thesis by (simp add: transform_def)
  next
    case (Inr rws')
    from priv_transform_check_fails [OF assms, of rws']
    obtain e where "priv_transform env self rws' = Inl e"
      by (cases "priv_transform env self rws'") auto
    with Inr show ?thesis by (simp add: transform_def)
  qed
next
  show "comprehension (priv_input_array env self) input_data_list = Inr rws \<and>
          ts = pre @ t # post \<and>
          transformations_loop env (fields' f) rws pre ([], []) = Inr st \<longrightarrow>
          transform env self input_data_list = Inl (ValueError msg)"
  proof (intro impI, elim conjE)
    assume rws: "comprehension (priv_input_array env self) input_data_list = Inr rws"
      and ts: "ts = pre @ t # post"
      and pre: "transformations_loop env (fields' f) rws pre ([], []) = Inr st"
    have "transformations_loop env (fields' f) rws ts ([], []) = Inl (ValueError msg)"
      by (simp add: ts transformations_loop_append pre assms(4))
    then have "priv_transform env self rws = Inl (ValueError msg)"
      by (simp add: priv_transform_def assms(1,2))
    with rws show "transform env self input_data_list = Inl (ValueError msg)"
      by (simp add: transform_def)
  qed
qed

theorem check_error_aborts_witness:
  "evaluate_sexp demo_env (Some ''(+ (field a)'') (fields' demo_fields) =
     Inr (Some ''unknown expression'') \<and>
   isl (transform demo_env demo_broken_node [demo_record]) \<and>
   transform demo_env demo_broken_node [demo_record] = Inl (ValueError ''unknown expression'')"
proof -
  let ?t = "\<lparr>field = Some ''(+ (field a)'', names = Some [''half'']\<rparr>"
  have chk: "evaluate_sexp demo_env (field ?t) (fields' demo_fields) =
     Inr (Some ''unknown expression'')"
    by (simp add: demo_env_simps)
  have rws: "comprehension (priv_input_array demo_env demo_broken_node) [demo_record] =
      Inr [[Some (Num 2), Some (Num 3)]]"
    by (simp add: demo_broken_node_def demo_row)
  have "isl (transform demo_env demo_broken_node [demo_record]) \<and>
      transform demo_env demo_broken_node [demo_record] = Inl (ValueError ''unknown expression'')"
    using check_error_aborts [of demo_broken_node demo_fields "[?t]" ?t demo_env
        "''unknown expression''" "[demo_record]" "[[Some (Num 2), Some (Num 3)]]" "[]" "[]"
        "([], [])", OF _ _ _ chk] rws
    by (simp add: demo_broken_node_def demo_node_def)
  with chk show ?thesis by simp
qed

text \<open>
  Claim C3 as stated fails: with a generator whose check reports an error, a record whose
  value does not cast makes \<open>transform\<close> raise the casting error of the row builder,
  which runs first, and not the expression error.
\<close>

theorem check_error_counterexample:
  "evaluate_sexp demo_env (Some ''(+ (field a)'') (fields' demo_fields) =
     Inr (Some ''unknown expression'') \<and>
   transformations demo_broken_node =
     Some [\<lparr>field = Some ''(+ (field a)'', names = Some [''half'']\<rparr>] \<and>
   transform demo_env demo_broken_node [[(''a'', Some (Str ''two''))]] =
     Inl (ValueError ''Mismatch input data type'')"
  by (simp add: transform_def demo_broken_node_def demo_row_rejected demo_env_simps)
     (simp add: demo_node_def)

text \<open>The loop itself copes with no transformation: on the empty list \<open>_transform\<close>
  returns no header and no row.\<close>

lemma priv_transform_empty_list:
  assumes "transformations self = Some []" and "in_fields self = Some f"
  shows "priv_transform env self input_arrays = Inr ([], []) \<and>
         transform env self input_data_list =
           (case comprehension (priv_input_array env self) input_data_list of
              Inl e \<Rightarrow> Inl e
            | Inr rws \<Rightarrow> Inr [])"
  using assms by (simp add: priv_transform_def transform_def split: sum.splits)

section \<open>Construction\<close>

lemma transform_without_transformations:
  assumes "transformations self = None"
  shows "isl (transform env self input_data_list)"
  using assms by (simp add: transform_def priv_transform_def split: sum.splits option.splits)

lemma priv_input_array_no_fields:
  "in_fields self = None \<Longrightarrow> priv_input_array env self input_data = Inl AttributeError"
  by (cases input_data)
     (auto simp: priv_input_array_def split: sum.splits option.splits)

lemma comprehension_all_fail:
  "(\<And>x. g x = Inl e) \<Longrightarrow> comprehension g xs = (if xs = [] then Inr [] else Inl e)"
  by (cases xs) auto

lemma transform_no_fields:
  assumes "in_fields self = None"
  shows "transform env self input_data_list = Inl AttributeError"
  using assms
  by (simp add: transform_def priv_transform_def priv_input_array_no_fields
        comprehension_all_fail [of "priv_input_array env self" AttributeError])

lemma init_body_not_finished:
  assumes "get_resource_dict env resource = Inr (rid, payload)"
    and "get_status env (payload_body payload) = Inr code"
    and "code \<noteq> Some (FINISHED env)"
  shows "init_body construct env resource =
           Some (Inr (Dataset (Some rid) None None None None None None None None None None))"
  using assms by (simp add: init_body_def Let_def split: option.splits)

lemma demo_origin_constructed:
  "Dataset_init demo_env fuel ''dataset/origin'' = Some (Inr demo_origin)"
  by (cases fuel)
     (simp_all add: init_body_def demo_env_def demo_resources_def payload_body_def
        demo_body_def demo_sorted_headers demo_origin_def get_new_fields_def)

lemma demo_derived_constructed:
  "Dataset_init demo_env (Suc fuel) ''dataset/derived'' =
     Some (Inr (demo_node ''dataset/derived''
       (Some [\<lparr>field = Some ''(+ (field a) (field b))'', names = Some [''sum'']\<rparr>,
              \<lparr>field = Some ''(- (field a) (field b))'', names = Some [''diff'']\<rparr>])))"
proof -
  have origin: "Dataset_init demo_env fuel (''dataset/origin'') = Some (Inr demo_origin)"
    by (rule demo_origin_constructed)
  have get: "get_dataset demo_env ''dataset/origin'' = Inr ''dataset/origin''"
    by (simp add: demo_env_def)
  have res: "get_resource_dict demo_env ''dataset/derived'' =
      Inr (''dataset/derived'', \<lparr>p_object = Some (demo_body 5 (Some ''dataset/origin'') [demo_plus, demo_minus]),
          p_self = demo_body 5 None []\<rparr>)"
    by (simp add: demo_env_def demo_resources_def)
  have env: "FINISHED demo_env = 5" "DEFAULT_LOCALE demo_env = ''en_US.UTF-8''"
    "get_status demo_env = (\<lambda>b. Inr (p_status b))" "Fields_of demo_env = (\<lambda>b. Inr demo_fields)"
    by (simp_all add: demo_env_def)
  show ?thesis
    by (simp add: init_body_def res env get origin payload_body_def demo_body_def
        demo_sorted_headers get_new_fields_def demo_plus_def demo_minus_def demo_node_def
        demo_origin_def)
qed

lemma demo_copy_constructed:
  "Dataset_init demo_env (Suc fuel) ''dataset/copy'' =
     Some (Inr (demo_node ''dataset/copy'' None))"
proof -
  have origin: "Dataset_init demo_env fuel (''dataset/origin'') = Some (Inr demo_origin)"
    by (rule demo_origin_constructed)
  have get: "get_dataset demo_env ''dataset/origin'' = Inr ''dataset/origin''"
    by (simp add: demo_env_def)
  have res: "get_resource_dict demo_env ''dataset/copy'' =
      Inr (''dataset/copy'', \<lparr>p_object = None, p_self = demo_body 5 (Some ''dataset/origin'') []\<rparr>)"
    by (simp add: demo_env_def demo_resources_def)
  have env: "FINISHED demo_env = 5" "DEFAULT_LOCALE demo_env = ''en_US.UTF-8''"
    "get_status demo_env = (\<lambda>b. Inr (p_status b))" "Fields_of demo_env = (\<lambda>b. Inr demo_fields)"
    by (simp_all add: demo_env_def)
  show ?thesis
    by (simp add: init_body_def res env get origin payload_body_def demo_body_def
        demo_sorted_headers get_new_fields_def demo_node_def demo_origin_def)
qed

lemma demo_pending_constructed:
  "Dataset_init demo_env fuel ''dataset/pending'' =
     Some (Inr (Dataset (Some ''dataset/pending'') None None None None None None None None
                  None None))"
  by (cases fuel)
     (simp_all add: init_body_def demo_env_def demo_resources_def payload_body_def demo_body_def)

text \<open>
  Claim C7. For a payload whose status is not the finished one, construction returns a
  node, for every bound on the origin chain; its output schema and its input schema are
  \<open>None\<close>, it has no transformations (the attribute is \<open>None\<close>), and both
  \<open>_transform\<close> and \<open>transform\<close> raise on it for every input.
\<close>

theorem not_finished_node:
  assumes "get_resource_dict env resource = Inr (rid, payload)"
    and "get_status env (payload_body payload) = Inr code"
    and "code \<noteq> Some (FINISHED env)"
  shows "\<exists>node. Dataset_init env fuel resource = Some (Inr node) \<and>
           out_fields node = None \<and> in_fields node = None \<and> transformations node = None \<and>
           (\<forall>input_arrays. priv_transform env node input_arrays = Inl AttributeError) \<and>
           (\<forall>input_data_list. transform env node input_data_list = Inl AttributeError)"
proof -
  let ?node = "Dataset (Some rid) None None None None None None None None None None"
  have "Dataset_init env fuel resource = Some (Inr ?node)"
    by (cases fuel) (simp_all add: init_body_not_finished [OF assms])
  moreover have "\<forall>input_arrays. priv_transform env ?node input_arrays = Inl AttributeError"
    by (simp add: priv_transform_def)
  moreover have "\<forall>input_data_list. transform env ?node input_data_list = Inl AttributeError"
    by (simp add: transform_no_fields)
  ultimately show ?thesis by simp
qed

theorem not_finished_node_witness:
  "get_status demo_env (demo_body 2 (Some ''dataset/origin'') [demo_plus]) = Inr (Some 2) \<and>
   Dataset_init demo_env 0 ''dataset/pending'' =
     Some (Inr (Dataset (Some ''dataset/pending'') None None None None None None None None
                  None None)) \<and>
   transform demo_env
       (Dataset (Some ''dataset/pending'') None None None None None None None None None None)
       [demo_record] =
     Inl AttributeError"
proof -
  let ?p = "\<lparr>p_object = None, p_self = demo_body 2 (Some ''dataset/origin'') [demo_plus]\<rparr>"
  have res: "get_resource_dict demo_env ''dataset/pending'' = Inr (''dataset/pending'', ?p)"
    by (simp add: demo_env_def demo_resources_def)
  have st: "get_status demo_env (payload_body ?p) = Inr (Some 2)"
    by (simp add: demo_env_def payload_body_def demo_body_def)
  have nf: "Some (2::int) \<noteq> Some (FINISHED demo_env)"
    by (simp add: demo_env_def)
  from not_finished_node [OF res st nf, of 0] demo_pending_constructed [of 0] st
  show ?thesis by (auto simp: payload_body_def)
qed

lemma init_body_transformations:
  assumes "init_body construct env resource = Some (Inr node)"
  shows "transformations node \<noteq> Some []"
  using assms
  by (auto simp: init_body_def Let_def split: sum.splits option.splits if_splits prod.splits)

lemma init_body_no_transformations:
  assumes "init_body construct env resource = Some (Inr node)"
    and "get_resource_dict env resource = Inr (rid, payload)"
    and "p_origin_dataset (payload_body payload) = None \<or>
         p_origin_dataset (payload_body payload) = Some [] \<or>
         p_output_fields (payload_body payload) = None \<or>
         p_output_fields (payload_body payload) = Some []"
  shows "transformations node = None"
  using assms
  by (auto simp: init_body_def Let_def get_new_fields_def
      split: sum.splits option.splits if_splits prod.splits)

text \<open>
  Claim C9. The transformations of a constructed node are \<open>None\<close> or a non-empty list,
  never the empty list; they are \<open>None\<close> when the payload declares no origin dataset
  or no output field. \<open>_transform\<close> iterates the attribute without a test: on a node
  whose transformations are \<open>None\<close>, \<open>transform\<close> raises, and \<open>_transform\<close> raises
  \<open>TypeError\<close> when the node has an input schema.
\<close>

theorem transformations_never_empty:
  assumes "Dataset_init env fuel resource = Some (Inr node)"
  shows "transformations node \<noteq> Some [] \<and>
         (get_resource_dict env resource = Inr (rid, payload) \<and>
          (p_origin_dataset (payload_body payload) = None \<or>
           p_origin_dataset (payload_body payload) = Some [] \<or>
           p_output_fields (payload_body payload) = None \<or>
           p_output_fields (payload_body payload) = Some []) \<longrightarrow>
          transformations node = None) \<and>
         (transformations node = None \<longrightarrow>
            isl (transform env node input_data_list) \<and>
            (in_fields node \<noteq> None \<longrightarrow>
               priv_transform env node input_arrays = Inl TypeError))"
proof -
  obtain construct where init: "init_body construct env resource = Some (Inr node)"
    using assms by (cases fuel) auto
  have "transformations node \<noteq> Some []" by (rule init_body_transformations [OF init])
  moreover have "get_resource_dict env resource = Inr (rid, payload) \<and>
          (p_origin_dataset (payload_body payload) = None \<or>
           p_origin_dataset (payload_body payload) = Some [] \<or>
           p_output_fields (payload_body payload) = None \<or>
           p_output_fields (payload_body payload) = Some []) \<longrightarrow>
          transformations node = None"
    using init_body_no_transformations [OF init] by blast
  moreover have "transformations node = None \<longrightarrow>
            isl (transform env node input_data_list) \<and>
            (in_fields node \<noteq> None \<longrightarrow>
               priv_transform env node input_arrays = Inl TypeError)"
    by (auto simp: transform_without_transformations priv_transform_def)
  ultimately show ?thesis by blast
qed

theorem transformations_never_empty_witness:
  "Dataset_init demo_env 1 ''dataset/copy'' = Some (Inr (demo_node ''dataset/copy'' None)) \<and>
   transformations (demo_node ''dataset/copy'' None) = None \<and>
   priv_transform demo_env (demo_node ''dataset/copy'' None) [[Some (Num 2), Some (Num 3)]] =
     Inl TypeError"
proof -
  have init: "Dataset_init demo_env 1 ''dataset/copy'' = Some (Inr (demo_node ''dataset/copy'' None))"
    using demo_copy_constructed [of 0] by simp
  have res: "get_resource_dict demo_env ''dataset/copy'' =
      Inr (''dataset/copy'', \<lparr>p_object = None, p_self = demo_body 5 (Some ''dataset/origin'') []\<rparr>)"
    by (simp add: demo_env_def demo_resources_def)
  have none: "p_output_fields (payload_body
      \<lparr>p_object = None, p_self = demo_body 5 (Some ''dataset/origin'') ([]::string output_field list)\<rparr>) = Some []"
    by (simp add: payload_body_def demo_body_def)
  have fl: "in_fields (demo_node ''dataset/copy'' None) \<noteq> None"
    by (simp add: demo_node_def)
  from transformations_never_empty [OF init, of "''dataset/copy''"
      "\<lparr>p_object = None, p_self = demo_body 5 (Some ''dataset/origin'') []\<rparr>" "[]"
      "[[Some (Num 2), Some (Num 3)]]"] res none fl init
  show ?thesis by blast
qed

text \<open>
  Claim C2. The claim is that every row of the output has as many cells as there are
  headers. \<open>_transform\<close> extends the headers inside the loop over the result rows, once
  for every result row: the constructed dataset of two generators, given two input rows,
  yields four headers and rows of two cells.
\<close>

theorem headers_repeated_per_row:
  "Dataset_init demo_env 1 ''dataset/derived'' = Some (Inr demo_derived) \<and>
   priv_transform demo_env demo_derived
       [[Some (Num 2), Some (Num 3)], [Some (Num 4), Some (Num 3)]] =
     Inr ([''sum'', ''sum'', ''diff'', ''diff''],
          [[Some (Num 5), Some (Num (- 1))], [Some (Num 7), Some (Num 1)]])"
proof
  show "Dataset_init demo_env 1 ''dataset/derived'' = Some (Inr demo_derived)"
    using demo_derived_constructed [of 0] by (simp add: demo_derived_def)
  show "priv_transform demo_env demo_derived
       [[Some (Num 2), Some (Num 3)], [Some (Num 4), Some (Num 3)]] =
     Inr ([''sum'', ''sum'', ''diff'', ''diff''],
          [[Some (Num 5), Some (Num (- 1))], [Some (Num 7), Some (Num 1)]])"
    by (simp add: priv_transform_def demo_derived_def demo_node_def demo_env_simps)
qed

lemma demo_transform_two_rows:
  "transform demo_env demo_derived [demo_record, [(''000000'', Some (Num 4)), (''b'', Some (Num 3))]] =
     Inr [[(''sum'', Some (Num (- 1)))], [(''sum'', Some (Num 1))]]"
  by (simp add: transform_def priv_input_array_def priv_transform_def demo_derived_def
      demo_node_def demo_record_def demo_env_simps demo_fields_simps demo_cast_rule_def dict_def)

lemma demo_twins_constructed:
  "Dataset_init demo_env (Suc fuel) ''dataset/twins'' = Some (Inr demo_twins)"
proof -
  have origin: "Dataset_init demo_env fuel (''dataset/origin'') = Some (Inr demo_origin)"
    by (rule demo_origin_constructed)
  have get: "get_dataset demo_env ''dataset/origin'' = Inr ''dataset/origin''"
    by (simp add: demo_env_def)
  have res: "get_resource_dict demo_env ''dataset/twins'' =
      Inr (''dataset/twins'',
        \<lparr>p_object = None,
         p_self = demo_body 5 (Some ''dataset/origin'') [demo_twin_plus, demo_twin_minus]\<rparr>)"
    by (simp add: demo_env_def demo_resources_def)
  have env: "FINISHED demo_env = 5" "DEFAULT_LOCALE demo_env = ''en_US.UTF-8''"
    "get_status demo_env = (\<lambda>b. Inr (p_status b))" "Fields_of demo_env = (\<lambda>b. Inr demo_fields)"
    by (simp_all add: demo_env_def)
  show ?thesis
    by (simp add: init_body_def res env get origin payload_body_def demo_body_def
        demo_sorted_headers get_new_fields_def demo_twin_plus_def demo_twin_minus_def
        demo_twins_def demo_node_def demo_origin_def)
qed

section \<open>The claims on the constructed datasets\<close>

text \<open>
  Claim C1. The claim is that \<open>transform\<close> on a node without generators succeeds and
  returns the empty list of records, whatever the records. The constructor keeps \<open>None\<close>
  for such a dataset, never the empty list, and \<open>_transform\<close> iterates the attribute
  without a test: on the constructed dataset that declares no output field,
  \<open>transform\<close> raises \<open>TypeError\<close>, on a record that casts and on no record at all.
\<close>

theorem no_generators_transform_raises:
  "Dataset_init demo_env 1 ''dataset/copy'' = Some (Inr (demo_node ''dataset/copy'' None)) \<and>
   transform demo_env (demo_node ''dataset/copy'' None) [demo_record] = Inl TypeError \<and>
   transform demo_env (demo_node ''dataset/copy'' None) [] = Inl TypeError"
proof -
  have "Dataset_init demo_env 1 ''dataset/copy'' = Some (Inr (demo_node ''dataset/copy'' None))"
    using demo_copy_constructed [of 0] by simp
  moreover have "priv_transform demo_env (demo_node ''dataset/copy'' None) rws = Inl TypeError"
    for rws
    by (simp add: priv_transform_def demo_node_def)
  ultimately show ?thesis by (simp add: transform_def demo_row)
qed


text \<open>
  Claim C8. \<open>transform\<close> pairs the headers with the values of every output row by
  position, and the record it returns for the row keeps, for a name, the value paired with
  the last occurrence of the name: when the rows were built and \<open>_transform\<close> returned
  the headers and the output rows, \<open>transform\<close> returns one record for every output row,
  and when \<open>i\<close> is the highest paired position of row \<open>k\<close> whose header is \<open>n\<close>, the
  \<open>k\<close>-th record maps \<open>n\<close> to the value at position \<open>i\<close> of that row, whatever the
  earlier positions of the same name held.
\<close>

theorem transform_last_write_wins:
  assumes "comprehension (priv_input_array env self) input_data_list = Inr rws"
    and "priv_transform env self rws = Inr (out_headers, out_arrays)"
    and "k < length out_arrays"
    and "i < length out_headers" and "i < length (out_arrays ! k)" and "out_headers ! i = n"
    and "\<forall>j. i < j \<longrightarrow> j < length out_headers \<longrightarrow> j < length (out_arrays ! k) \<longrightarrow>
           out_headers ! j \<noteq> n"
  shows "\<exists>records. transform env self input_data_list = Inr records \<and>
           length records = length out_arrays \<and>
           map_of (records ! k) n = Some (out_arrays ! k ! i)"
proof -
  let ?records = "map (\<lambda>row. dict (zip out_headers row)) out_arrays"
  have "transform env self input_data_list = Inr ?records"
    by (simp add: transform_def assms(1,2))
  moreover have "length ?records = length out_arrays" by simp
  moreover have "map_of (?records ! k) n = Some (out_arrays ! k ! i)"
    using assms(3) dict_zip_last_occurrence [OF assms(4,5,6,7)] by simp
  ultimately show ?thesis by blast
qed

theorem transform_last_write_wins_witness:
  "Dataset_init demo_env 1 ''dataset/twins'' = Some (Inr demo_twins) \<and>
   priv_transform demo_env demo_twins [[Some (Num 2), Some (Num 3)]] =
     Inr ([''x'', ''x''], [[Some (Num 5), Some (Num (- 1))]]) \<and>
   \<not> isl (transform demo_env demo_twins [demo_record]) \<and>
   map_of (projr (transform demo_env demo_twins [demo_record]) ! 0) ''x'' =
     Some (Some (Num (- 1)))"
proof -
  have init: "Dataset_init demo_env 1 ''dataset/twins'' = Some (Inr demo_twins)"
    using demo_twins_constructed [of 0] by simp
  have rws: "comprehension (priv_input_array demo_env demo_twins) [demo_record] =
      Inr [[Some (Num 2), Some (Num 3)]]"
    by (simp add: demo_twins_def demo_row)
  have engine: "priv_transform demo_env demo_twins [[Some (Num 2), Some (Num 3)]] =
      Inr ([''x'', ''x''], [[Some (Num 5), Some (Num (- 1))]])"
    by (simp add: priv_transform_def demo_twins_def demo_node_def demo_env_simps)
  from transform_last_write_wins [OF rws engine, of 0 1 "''x''"]
  obtain records where "transform demo_env demo_twins [demo_record] = Inr records"
    and "map_of (records ! 0) ''x'' = Some (Some (Num (- 1)))"
    by auto
  with init engine show ?thesis by simp
qed

end
